theory Spec2Isabelle
  imports Main "HOL-Library.Sublist"
begin

section \<open>The event broker factory of \<^verbatim>\<open>rasa/core/brokers/broker.py\<close>\<close>

text \<open>
  The module holds the base class \<^verbatim>\<open>EventBroker\<close> (with the static factory
  \<^verbatim>\<open>create\<close>) and the two module functions \<^verbatim>\<open>_create_from_endpoint_config\<close> and
  \<^verbatim>\<open>_load_from_module_string\<close>. Everything the module calls but does not define
  (the four builtin brokers, \<^verbatim>\<open>common.class_from_module_path\<close>) is a field of an
  \<open>environment\<close>, so every theorem holds for all of their behaviours.
\<close>

subsection \<open>Python values\<close>

text \<open>
  An exception object: the names of the classes in the method resolution order of its
  class (the class itself first), and \<^verbatim>\<open>str(e)\<close>. \<^verbatim>\<open>except (A, B)\<close> catches an
  exception whose class is \<^verbatim>\<open>A\<close>, \<^verbatim>\<open>B\<close> or a subclass of one of them, which is
  membership in that list.
\<close>

datatype py_exception = PyException (exc_mro: "string list") (exc_str: string)

definition isinstance_exc :: "py_exception \<Rightarrow> string \<Rightarrow> bool" where
  "isinstance_exc e cls = (cls \<in> set (exc_mro e))"

definition NotImplementedError :: "string \<Rightarrow> py_exception" where
  "NotImplementedError msg =
     PyException [''NotImplementedError'', ''RuntimeError'', ''Exception'',
                  ''BaseException'', ''object''] msg"

definition AttributeError :: "string \<Rightarrow> py_exception" where
  "AttributeError msg =
     PyException [''AttributeError'', ''Exception'', ''BaseException'', ''object''] msg"

definition ImportError :: "string \<Rightarrow> py_exception" where
  "ImportError msg =
     PyException [''ImportError'', ''Exception'', ''BaseException'', ''object''] msg"

text \<open>
  Strings are lists of code points below 256 (Latin-1); code points above are outside
  the model. On that range \<^verbatim>\<open>str.lower\<close> adds 32 to the capital letters
  \<^verbatim>\<open>A-Z\<close> (65 to 90) and to the accented capitals 192 to 222 except the
  multiplication sign 215, and leaves every other code point alone.
\<close>

definition lower_char :: "char \<Rightarrow> char" where
  "lower_char c =
     (let n = (of_char c :: nat)
      in if (65 \<le> n \<and> n \<le> 90) \<or> (192 \<le> n \<and> n \<le> 222 \<and> n \<noteq> 215)
         then char_of (n + 32) else c)"

definition lower :: "string \<Rightarrow> string" where
  "lower s = map lower_char s"

text \<open>
  \<^verbatim>\<open>EndpointConfig\<close> (of \<^verbatim>\<open>rasa.utils.endpoints\<close>): the factory reads \<^verbatim>\<open>type\<close> only and
  hands the whole object to the chosen constructor.
\<close>

record endpoint_config =
  type :: "string option"
  url :: "string option"
  kwargs :: "(string \<times> string) list"

text \<open>An instance of (a subclass of) \<^verbatim>\<open>EventBroker\<close>: its class and its identity.\<close>

datatype event_broker = EventBrokerObj (broker_class: string) (broker_ref: nat)

text \<open>
  What \<^verbatim>\<open>class_from_module_path\<close> returns: any Python object (a class, but also a
  module, a function, an instance). The loader uses one thing of it, the attribute lookup
  \<^verbatim>\<open>event_broker_class.from_endpoint_config\<close>, which gives a callable or raises; on an
  object without the attribute it raises an \<^verbatim>\<open>AttributeError\<close> whose text depends on
  the kind of object. The object is modelled by the outcome of that lookup.
\<close>

datatype loaded_object =
  LoadedObject
    (getattr_from_endpoint_config:
       "py_exception + (endpoint_config \<Rightarrow> py_exception + event_broker)")

text \<open>
  The code outside the module. A builtin entry stands for the import of the broker's
  module followed by the call of its \<^verbatim>\<open>from_endpoint_config\<close>; \<^verbatim>\<open>class_from_module_path\<close>
  receives \<^verbatim>\<open>broker_config.type\<close> as it is.
\<close>

record environment =
  class_from_module_path :: "string option \<Rightarrow> py_exception + loaded_object"
  PikaEventBroker_from_endpoint_config :: "endpoint_config \<Rightarrow> py_exception + event_broker"
  SQLEventBroker_from_endpoint_config :: "endpoint_config \<Rightarrow> py_exception + event_broker"
  FileEventBroker_from_endpoint_config :: "endpoint_config \<Rightarrow> py_exception + event_broker"
  KafkaEventBroker_from_endpoint_config :: "endpoint_config \<Rightarrow> py_exception + event_broker"

text \<open>
  The effects of the module: the records its own \<^verbatim>\<open>logger\<close> emits at warning level,
  and the arguments of its calls of \<^verbatim>\<open>class_from_module_path\<close>, both oldest first.
\<close>

record world =
  warnings :: "string list"
  lookups :: "string option list"

text \<open>The argument of \<open>create\<close>: \<^verbatim>\<open>Union["EventBroker", EndpointConfig, None]\<close>.\<close>

datatype factory_input = NoneObj | BrokerObj event_broker | ConfigObj endpoint_config

type_synonym 'a outcome = "(py_exception + 'a) \<times> world"

subsection \<open>The base class\<close>

definition EventBroker_from_endpoint_config :: "endpoint_config \<Rightarrow> py_exception + event_broker" where
  "EventBroker_from_endpoint_config broker_config =
     Inl (NotImplementedError ''Event broker must implement the `from_endpoint_config` method.'')"

definition EventBroker_publish :: "event_broker \<Rightarrow> (string \<times> string) list \<Rightarrow> py_exception + unit" where
  "EventBroker_publish self event =
     Inl (NotImplementedError ''Event broker must implement the `publish` method.'')"

subsection \<open>The dynamic loader\<close>

text \<open>\<^verbatim>\<open>f"{broker_config.type}"\<close>: the string itself, or \<^verbatim>\<open>None\<close> printed.\<close>

definition format_type :: "string option \<Rightarrow> string" where
  "format_type t = (case t of None \<Rightarrow> ''None'' | Some s \<Rightarrow> s)"

definition warning_text :: "string option \<Rightarrow> py_exception \<Rightarrow> string" where
  "warning_text t e =
     ''The `EventBroker` type '' @ [CHR 0x27] @ format_type t @ [CHR 0x27]
       @ '' could not be found. Not using any event broker. Error: '' @ exc_str e"

text \<open>The body of the \<^verbatim>\<open>try\<close> block, lines 66 and 67.\<close>

definition load_try_body :: "environment \<Rightarrow> endpoint_config \<Rightarrow> py_exception + event_broker" where
  "load_try_body env broker_config =
     (case class_from_module_path env (type broker_config) of
        Inl e \<Rightarrow> Inl e
      | Inr event_broker_class \<Rightarrow>
          (case getattr_from_endpoint_config event_broker_class of
             Inl e \<Rightarrow> Inl e
           | Inr from_endpoint_config \<Rightarrow> from_endpoint_config broker_config))"

definition load_from_module_string ::
  "environment \<Rightarrow> endpoint_config \<Rightarrow> world \<Rightarrow> event_broker option outcome" where
  "load_from_module_string env broker_config w =
     (let w1 = w\<lparr>lookups := lookups w @ [type broker_config]\<rparr>
      in case load_try_body env broker_config of
           Inr b \<Rightarrow> (Inr (Some b), w1)
         | Inl e \<Rightarrow>
             if isinstance_exc e ''AttributeError'' \<or> isinstance_exc e ''ImportError''
             then (Inr None,
                   w1\<lparr>warnings := warnings w1 @ [warning_text (type broker_config) e]\<rparr>)
             else (Inl e, w1))"

subsection \<open>The factory\<close>

definition returning :: "py_exception + event_broker \<Rightarrow> world \<Rightarrow> event_broker option outcome" where
  "returning r w = (case r of Inl e \<Rightarrow> (Inl e, w) | Inr b \<Rightarrow> (Inr (Some b), w))"

text \<open>
  The \<^verbatim>\<open>if\<close>/\<^verbatim>\<open>elif\<close> chain of lines 40 to 59. After the first test of line 42,
  \<^verbatim>\<open>endpoint_config.type\<close> is a string in every later test.
\<close>

fun create_from_endpoint_config ::
  "environment \<Rightarrow> endpoint_config option \<Rightarrow> world \<Rightarrow> event_broker option outcome" where
  "create_from_endpoint_config env None w = (Inr None, w)"
| "create_from_endpoint_config env (Some endpoint_config) w =
     (case type endpoint_config of
        None \<Rightarrow> returning (PikaEventBroker_from_endpoint_config env endpoint_config) w
      | Some t \<Rightarrow>
          if lower t = ''pika''
          then returning (PikaEventBroker_from_endpoint_config env endpoint_config) w
          else if lower t = ''sql''
          then returning (SQLEventBroker_from_endpoint_config env endpoint_config) w
          else if lower t = ''file''
          then returning (FileEventBroker_from_endpoint_config env endpoint_config) w
          else if lower t = ''kafka''
          then returning (KafkaEventBroker_from_endpoint_config env endpoint_config) w
          else load_from_module_string env endpoint_config w)"

fun create :: "environment \<Rightarrow> factory_input \<Rightarrow> world \<Rightarrow> event_broker option outcome" where
  "create env (BrokerObj obj) w = (Inr (Some obj), w)"
| "create env NoneObj w = create_from_endpoint_config env None w"
| "create env (ConfigObj obj) w = create_from_endpoint_config env (Some obj) w"

subsection \<open>Tags under any letter casing\<close>

text \<open>
  The tags of the builtin brokers are written in small ASCII letters. A string is such a
  tag under some letter casing when it has the tag's length and each of its characters
  is the tag's letter or that letter's capital.
\<close>

definition is_ascii_lower :: "char \<Rightarrow> bool" where
  "is_ascii_lower d = (97 \<le> (of_char d :: nat) \<and> (of_char d :: nat) \<le> 122)"

definition upper_ascii :: "char \<Rightarrow> char" where
  "upper_ascii d = char_of ((of_char d :: nat) - 32)"

definition is_casing_of :: "string \<Rightarrow> string \<Rightarrow> bool" where
  "is_casing_of tag t = list_all2 (\<lambda>c d. c = d \<or> c = upper_ascii d) t tag"

definition builtin_tags :: "string list" where
  "builtin_tags = [''pika'', ''sql'', ''file'', ''kafka'']"

definition is_builtin_tag :: "string \<Rightarrow> bool" where
  "is_builtin_tag t = list_ex (\<lambda>tag. is_casing_of tag t) builtin_tags"

subsection \<open>A concrete environment\<close>

definition ValueError :: "string \<Rightarrow> py_exception" where
  "ValueError msg =
     PyException [''ValueError'', ''Exception'', ''BaseException'', ''object''] msg"

definition ModuleNotFoundError :: "string \<Rightarrow> py_exception" where
  "ModuleNotFoundError msg =
     PyException [''ModuleNotFoundError'', ''ImportError'', ''Exception'',
                  ''BaseException'', ''object''] msg"

definition example_config :: "string option \<Rightarrow> endpoint_config" where
  "example_config t = \<lparr>type = t, url = Some ''localhost'', kwargs = []\<rparr>"

definition construct_as :: "string \<Rightarrow> nat \<Rightarrow> endpoint_config \<Rightarrow> py_exception + event_broker" where
  "construct_as cls ref broker_config = Inr (EventBrokerObj cls ref)"

definition construct_raising :: "py_exception \<Rightarrow> endpoint_config \<Rightarrow> py_exception + event_broker" where
  "construct_raising e broker_config = Inl e"

text \<open>
  The \<^verbatim>\<open>AttributeError\<close> of Python for a missing attribute, by kind of object: a
  class, a module, or an instance of a class (a function is an instance of
  \<^verbatim>\<open>function\<close>).
\<close>

datatype object_kind = ClassObject string | ModuleObject string | InstanceOf string

definition no_attribute :: "object_kind \<Rightarrow> string \<Rightarrow> py_exception" where
  "no_attribute kind attr =
     AttributeError
       ((case kind of
           ClassObject n \<Rightarrow> ''type object '' @ [CHR 0x27] @ n @ [CHR 0x27] @ '' has''
         | ModuleObject n \<Rightarrow> ''module '' @ [CHR 0x27] @ n @ [CHR 0x27] @ '' has''
         | InstanceOf n \<Rightarrow> [CHR 0x27] @ n @ [CHR 0x27] @ '' object has'')
        @ '' no attribute '' @ [CHR 0x27] @ attr @ [CHR 0x27])"

definition object_without_constructor :: "object_kind \<Rightarrow> loaded_object" where
  "object_without_constructor kind = LoadedObject (Inl (no_attribute kind ''from_endpoint_config''))"

definition fragile_class :: loaded_object where
  "fragile_class =
     LoadedObject (Inr (construct_raising (AttributeError ''no attribute host'')))"

text \<open>
  A resolver in the manner of \<^verbatim>\<open>class_from_module_path\<close>: some paths name objects; the
  path \<^verbatim>\<open>.\<close> has an empty module name, for which \<^verbatim>\<open>importlib\<close> raises a
  \<^verbatim>\<open>ValueError\<close>; any other dotted path names a module that is not installed; a path
  without a dot names nothing.
\<close>

definition example_resolver :: "string option \<Rightarrow> py_exception + loaded_object" where
  "example_resolver t =
     (if t = Some ''my.brokers.Custom''
      then Inr (LoadedObject (Inr (construct_as ''Custom'' 5)))
      else if t = Some ''my.brokers.Fragile'' then Inr fragile_class
      else if t = Some ''my.brokers.Plain''
      then Inr (object_without_constructor (ClassObject ''Plain''))
      else if t = Some ''my.brokers''
      then Inr (object_without_constructor (ModuleObject ''my.brokers''))
      else if t = Some ''.'' then Inl (ValueError ''Empty module name'')
      else if CHR ''.'' \<in> set (format_type t)
      then Inl (ModuleNotFoundError (''No module named '' @ format_type t))
      else Inl (ImportError (''Cannot retrieve class from path '' @ format_type t @ ''.'')))"


definition example_env :: environment where
  "example_env =
     \<lparr>class_from_module_path = example_resolver,
      PikaEventBroker_from_endpoint_config = construct_as ''PikaEventBroker'' 1,
      SQLEventBroker_from_endpoint_config = construct_as ''SQLEventBroker'' 2,
      FileEventBroker_from_endpoint_config = construct_as ''FileEventBroker'' 3,
      KafkaEventBroker_from_endpoint_config = construct_as ''KafkaEventBroker'' 4\<rparr>"

definition quiet :: world where
  "quiet = \<lparr>warnings = [], lookups = []\<rparr>"

section \<open>Case-insensitive comparison\<close>

lemma of_char_lower_char:
  "(of_char (lower_char c) :: nat) =
     (let n = (of_char c :: nat)
      in if (65 \<le> n \<and> n \<le> 90) \<or> (192 \<le> n \<and> n \<le> 222 \<and> n \<noteq> 215)
         then n + 32 else n)"
  by (simp add: lower_char_def Let_def)

lemma lower_char_eq_iff:
  assumes "is_ascii_lower d"
  shows "lower_char c = d \<longleftrightarrow> c = d \<or> c = upper_ascii d"
proof -
  have m: "97 \<le> (of_char d :: nat)" "(of_char d :: nat) \<le> 122"
    using assms by (simp_all add: is_ascii_lower_def)
  have up: "(of_char (upper_ascii d) :: nat) = of_char d - 32"
    using m by (simp add: upper_ascii_def)
  have "lower_char c = d \<longleftrightarrow> (of_char (lower_char c) :: nat) = of_char d"
    by simp
  also have "\<dots> \<longleftrightarrow> (of_char c :: nat) = of_char d \<or> (of_char c :: nat) = of_char d - 32"
    using m unfolding of_char_lower_char Let_def by auto
  also have "\<dots> \<longleftrightarrow> c = d \<or> c = upper_ascii d"
    using up by (metis of_char_eq_iff)
  finally show ?thesis .
qed

lemma lower_eq_iff:
  "list_all is_ascii_lower tag \<Longrightarrow> lower t = tag \<longleftrightarrow> is_casing_of tag t"
proof (induction tag arbitrary: t)
  case Nil
  then show ?case by (simp add: lower_def is_casing_of_def)
next
  case (Cons d tag)
  then show ?case
    by (cases t) (auto simp: lower_def is_casing_of_def lower_char_eq_iff)
qed

lemma lower_pika: "lower t = ''pika'' \<longleftrightarrow> is_casing_of ''pika'' t"
  by (rule lower_eq_iff) (simp add: is_ascii_lower_def)

lemma lower_sql: "lower t = ''sql'' \<longleftrightarrow> is_casing_of ''sql'' t"
  by (rule lower_eq_iff) (simp add: is_ascii_lower_def)

lemma lower_file: "lower t = ''file'' \<longleftrightarrow> is_casing_of ''file'' t"
  by (rule lower_eq_iff) (simp add: is_ascii_lower_def)

lemma lower_kafka: "lower t = ''kafka'' \<longleftrightarrow> is_casing_of ''kafka'' t"
  by (rule lower_eq_iff) (simp add: is_ascii_lower_def)

lemmas lower_tag = lower_pika lower_sql lower_file lower_kafka

lemma is_builtin_tag_iff:
  "is_builtin_tag t \<longleftrightarrow>
     is_casing_of ''pika'' t \<or> is_casing_of ''sql'' t \<or> is_casing_of ''file'' t
       \<or> is_casing_of ''kafka'' t"
  by (simp add: is_builtin_tag_def builtin_tags_def)

section \<open>The branches of the factory\<close>

lemma create_config_absent_type:
  "type c = None \<Longrightarrow>
     create env (ConfigObj c) w = returning (PikaEventBroker_from_endpoint_config env c) w"
  by simp

lemma create_config_pika:
  "type c = Some t \<Longrightarrow> is_casing_of ''pika'' t \<Longrightarrow>
     create env (ConfigObj c) w = returning (PikaEventBroker_from_endpoint_config env c) w"
  by (simp add: lower_tag [symmetric])

lemma create_config_sql:
  "type c = Some t \<Longrightarrow> is_casing_of ''sql'' t \<Longrightarrow>
     create env (ConfigObj c) w = returning (SQLEventBroker_from_endpoint_config env c) w"
  by (simp add: lower_tag [symmetric])

lemma create_config_file:
  "type c = Some t \<Longrightarrow> is_casing_of ''file'' t \<Longrightarrow>
     create env (ConfigObj c) w = returning (FileEventBroker_from_endpoint_config env c) w"
  by (simp add: lower_tag [symmetric])

lemma create_config_kafka:
  "type c = Some t \<Longrightarrow> is_casing_of ''kafka'' t \<Longrightarrow>
     create env (ConfigObj c) w = returning (KafkaEventBroker_from_endpoint_config env c) w"
  by (simp add: lower_tag [symmetric])

lemma create_config_dynamic:
  "type c = Some t \<Longrightarrow> \<not> is_builtin_tag t \<Longrightarrow>
     create env (ConfigObj c) w = load_from_module_string env c w"
  by (simp add: is_builtin_tag_iff lower_tag [symmetric])


lemma load_lookups:
  "lookups (snd (load_from_module_string env c w)) = lookups w @ [type c]"
  by (simp add: load_from_module_string_def Let_def split: sum.splits)

lemma example_pika:
  "PikaEventBroker_from_endpoint_config example_env c = Inr (EventBrokerObj ''PikaEventBroker'' 1)"
  by (simp add: example_env_def construct_as_def)

lemma example_sql:
  "SQLEventBroker_from_endpoint_config example_env c = Inr (EventBrokerObj ''SQLEventBroker'' 2)"
  by (simp add: example_env_def construct_as_def)

lemma example_file:
  "FileEventBroker_from_endpoint_config example_env c = Inr (EventBrokerObj ''FileEventBroker'' 3)"
  by (simp add: example_env_def construct_as_def)

lemma example_kafka:
  "KafkaEventBroker_from_endpoint_config example_env c = Inr (EventBrokerObj ''KafkaEventBroker'' 4)"
  by (simp add: example_env_def construct_as_def)

lemma example_type [simp]: "type (example_config t) = t"
  by (simp add: example_config_def)

section \<open>The handler of the dynamic loader\<close>

lemma resolution_raises_try_body:
  assumes "class_from_module_path env (type c) = Inl e"
  shows "load_try_body env c = Inl e"
  using assms by (simp add: load_try_body_def)

lemma lookup_raises_try_body:
  assumes "class_from_module_path env (type c) = Inr k"
    and "getattr_from_endpoint_config k = Inl e"
  shows "load_try_body env c = Inl e"
  using assms by (simp add: load_try_body_def)

lemma constructor_try_body:
  assumes "class_from_module_path env (type c) = Inr k"
    and "getattr_from_endpoint_config k = Inr f"
  shows "load_try_body env c = f c"
  using assms by (simp add: load_try_body_def)

lemma load_raised:
  assumes "load_try_body env c = Inl e"
  shows "load_from_module_string env c w =
           (if isinstance_exc e ''AttributeError'' \<or> isinstance_exc e ''ImportError''
            then (Inr None, w\<lparr>lookups := lookups w @ [type c],
                               warnings := warnings w @ [warning_text (type c) e]\<rparr>)
            else (Inl e, w\<lparr>lookups := lookups w @ [type c]\<rparr>))"
  using assms by (simp add: load_from_module_string_def Let_def)

lemma load_returned:
  assumes "load_try_body env c = Inr b"
  shows "load_from_module_string env c w = (Inr (Some b), w\<lparr>lookups := lookups w @ [type c]\<rparr>)"
  using assms by (simp add: load_from_module_string_def Let_def)


lemma warning_text_mentions:
  "sublist t (warning_text (Some t) e)" "sublist (exc_str e) (warning_text (Some t) e)"
proof -
  define a where "a = ''The `EventBroker` type '' @ [CHR 0x27]"
  define b where
    "b = [CHR 0x27] @ '' could not be found. Not using any event broker. Error: ''"
  have w: "warning_text (Some t) e = a @ t @ b @ exc_str e"
    by (simp add: warning_text_def format_type_def a_def b_def)
  show "sublist t (warning_text (Some t) e)"
    unfolding w by (rule sublist_appendI)
  have "warning_text (Some t) e = (a @ t @ b) @ exc_str e"
    unfolding w by simp
  then show "sublist (exc_str e) (warning_text (Some t) e)"
    by (simp only: sublist_append_leftI)
qed

lemma empty_not_builtin: "\<not> is_builtin_tag []"
  by (simp add: is_builtin_tag_iff is_casing_of_def)

lemma example_resolver_fragile:
  "class_from_module_path example_env (Some ''my.brokers.Fragile'') = Inr fragile_class"
  by (simp add: example_env_def example_resolver_def)

lemma example_resolver_custom:
  "class_from_module_path example_env (Some ''my.brokers.Custom'')
     = Inr (LoadedObject (Inr (construct_as ''Custom'' 5)))"
  by (simp add: example_env_def example_resolver_def)

lemma example_resolver_plain:
  "class_from_module_path example_env (Some ''my.brokers.Plain'')
     = Inr (object_without_constructor (ClassObject ''Plain''))"
  by (simp add: example_env_def example_resolver_def)

lemma example_resolver_module:
  "class_from_module_path example_env (Some ''my.brokers'')
     = Inr (object_without_constructor (ModuleObject ''my.brokers''))"
  by (simp add: example_env_def example_resolver_def)

lemma example_resolver_dot:
  "class_from_module_path example_env (Some ''.'') = Inl (ValueError ''Empty module name'')"
  by (simp add: example_env_def example_resolver_def)

lemma example_resolver_missing:
  "class_from_module_path example_env (Some ''not.a.real.Module'')
     = Inl (ModuleNotFoundError ''No module named not.a.real.Module'')"
  by (simp add: example_env_def example_resolver_def format_type_def)

lemma caught_ModuleNotFoundError:
  "isinstance_exc (ModuleNotFoundError m) ''AttributeError''
   \<or> isinstance_exc (ModuleNotFoundError m) ''ImportError''"
  by (simp add: ModuleNotFoundError_def isinstance_exc_def)

lemma caught_no_attribute:
  "isinstance_exc (no_attribute kind attr) ''AttributeError''
   \<or> isinstance_exc (no_attribute kind attr) ''ImportError''"
  by (simp add: no_attribute_def AttributeError_def isinstance_exc_def)

lemma not_caught_ValueError:
  "\<not> (isinstance_exc (ValueError m) ''AttributeError''
      \<or> isinstance_exc (ValueError m) ''ImportError'')"
  by (simp add: ValueError_def isinstance_exc_def)

section \<open>Properties\<close>

text \<open>
  C8. For an absent input (\<^verbatim>\<open>None\<close>), \<open>create\<close> returns \<^verbatim>\<open>None\<close>: no exception, no
  warning and no lookup, whatever the environment.
\<close>

theorem create_absent_returns_absent:
  "create env NoneObj w = (Inr None, w)"
  by simp

text \<open>
  C3. For every config whose \<^verbatim>\<open>type\<close> is absent or is \<^verbatim>\<open>pika\<close> under some letter
  casing, \<open>create\<close> calls \<^verbatim>\<open>PikaEventBroker.from_endpoint_config\<close> on the config and
  returns the broker it constructs (an exception of that constructor is the exception of
  \<open>create\<close>); nothing is logged and nothing is looked up.
\<close>

theorem create_absent_or_pika_constructs_pika:
  assumes "case type c of None \<Rightarrow> True | Some t \<Rightarrow> is_casing_of ''pika'' t"
  shows "create env (ConfigObj c) w =
           (case PikaEventBroker_from_endpoint_config env c of
              Inl e \<Rightarrow> (Inl e, w)
            | Inr b \<Rightarrow> (Inr (Some b), w))"
proof (cases "type c")
  case None
  then show ?thesis
    by (simp add: create_config_absent_type returning_def)
next
  case (Some t)
  with assms have "is_casing_of ''pika'' t" by simp
  with Some show ?thesis
    by (simp only: create_config_pika returning_def)
qed

theorem create_absent_or_pika_constructs_pika_witness:
  "(case type (example_config None) of None \<Rightarrow> True | Some t \<Rightarrow> is_casing_of ''pika'' t)
   \<and> create example_env (ConfigObj (example_config None)) quiet
       = (Inr (Some (EventBrokerObj ''PikaEventBroker'' 1)), quiet)
   \<and> (case type (example_config (Some ''PiKa'')) of
         None \<Rightarrow> True | Some t \<Rightarrow> is_casing_of ''pika'' t)
   \<and> create example_env (ConfigObj (example_config (Some ''PiKa''))) quiet
       = (Inr (Some (EventBrokerObj ''PikaEventBroker'' 1)), quiet)"
proof -
  have h1: "case type (example_config None) of
              None \<Rightarrow> True | Some t \<Rightarrow> is_casing_of ''pika'' t"
    by simp
  have h2: "case type (example_config (Some ''PiKa'')) of
              None \<Rightarrow> True | Some t \<Rightarrow> is_casing_of ''pika'' t"
    by code_simp
  show ?thesis
    using h1 h2
      create_absent_or_pika_constructs_pika [OF h1, of example_env quiet]
      create_absent_or_pika_constructs_pika [OF h2, of example_env quiet]
    by (simp add: example_pika)
qed

text \<open>
  C4. For every config whose \<^verbatim>\<open>type\<close> is \<^verbatim>\<open>sql\<close>, \<^verbatim>\<open>file\<close> or \<^verbatim>\<open>kafka\<close> under
  any letter casing, \<open>create\<close> calls the \<^verbatim>\<open>from_endpoint_config\<close> of the matching
  builtin broker (\<^verbatim>\<open>SQLEventBroker\<close>, \<^verbatim>\<open>FileEventBroker\<close>, \<^verbatim>\<open>KafkaEventBroker\<close>)
  on the config and returns its result.
\<close>

theorem create_dispatches_builtin_tags:
  assumes "type c = Some t"
  shows "(is_casing_of ''sql'' t \<longrightarrow>
            create env (ConfigObj c) w =
              (case SQLEventBroker_from_endpoint_config env c of
                 Inl e \<Rightarrow> (Inl e, w) | Inr b \<Rightarrow> (Inr (Some b), w)))
       \<and> (is_casing_of ''file'' t \<longrightarrow>
            create env (ConfigObj c) w =
              (case FileEventBroker_from_endpoint_config env c of
                 Inl e \<Rightarrow> (Inl e, w) | Inr b \<Rightarrow> (Inr (Some b), w)))
       \<and> (is_casing_of ''kafka'' t \<longrightarrow>
            create env (ConfigObj c) w =
              (case KafkaEventBroker_from_endpoint_config env c of
                 Inl e \<Rightarrow> (Inl e, w) | Inr b \<Rightarrow> (Inr (Some b), w)))"
proof (intro conjI impI)
  assume "is_casing_of ''sql'' t"
  with assms show "create env (ConfigObj c) w =
      (case SQLEventBroker_from_endpoint_config env c of
         Inl e \<Rightarrow> (Inl e, w) | Inr b \<Rightarrow> (Inr (Some b), w))"
    by (simp only: create_config_sql returning_def)
next
  assume "is_casing_of ''file'' t"
  with assms show "create env (ConfigObj c) w =
      (case FileEventBroker_from_endpoint_config env c of
         Inl e \<Rightarrow> (Inl e, w) | Inr b \<Rightarrow> (Inr (Some b), w))"
    by (simp only: create_config_file returning_def)
next
  assume "is_casing_of ''kafka'' t"
  with assms show "create env (ConfigObj c) w =
      (case KafkaEventBroker_from_endpoint_config env c of
         Inl e \<Rightarrow> (Inl e, w) | Inr b \<Rightarrow> (Inr (Some b), w))"
    by (simp only: create_config_kafka returning_def)
qed

theorem create_dispatches_builtin_tags_witness:
  "is_casing_of ''sql'' ''SQL''
   \<and> create example_env (ConfigObj (example_config (Some ''SQL''))) quiet
       = (Inr (Some (EventBrokerObj ''SQLEventBroker'' 2)), quiet)
   \<and> is_casing_of ''file'' ''File''
   \<and> create example_env (ConfigObj (example_config (Some ''File''))) quiet
       = (Inr (Some (EventBrokerObj ''FileEventBroker'' 3)), quiet)
   \<and> is_casing_of ''kafka'' ''Kafka''
   \<and> create example_env (ConfigObj (example_config (Some ''Kafka''))) quiet
       = (Inr (Some (EventBrokerObj ''KafkaEventBroker'' 4)), quiet)"
proof -
  have s: "is_casing_of ''sql'' ''SQL''" by code_simp
  have f: "is_casing_of ''file'' ''File''" by code_simp
  have k: "is_casing_of ''kafka'' ''Kafka''" by code_simp
  show ?thesis
    using s f k
      create_dispatches_builtin_tags [of "example_config (Some ''SQL'')" "''SQL''" example_env quiet]
      create_dispatches_builtin_tags [of "example_config (Some ''File'')" "''File''" example_env quiet]
      create_dispatches_builtin_tags [of "example_config (Some ''Kafka'')" "''Kafka''" example_env quiet]
    by (simp add: example_sql example_file example_kafka)
qed

text \<open>
  C5. For every input that is already an \<^verbatim>\<open>EventBroker\<close> instance, \<open>create\<close> returns
  that very instance and does nothing else; hence applying \<open>create\<close> to a broker that
  \<open>create\<close> returned gives the same broker again.
\<close>

theorem create_passes_broker_through:
  "create env (BrokerObj b) w = (Inr (Some b), w)
   \<and> (create env obj w = (Inr (Some b), w1) \<longrightarrow>
        create env (BrokerObj b) w1 = (Inr (Some b), w1))"
  by simp

theorem create_passes_broker_through_witness:
  "create example_env (ConfigObj (example_config (Some ''my.brokers.Custom''))) quiet
     = (Inr (Some (EventBrokerObj ''Custom'' 5)),
        \<lparr>warnings = [], lookups = [Some ''my.brokers.Custom'']\<rparr>)
   \<and> create example_env (BrokerObj (EventBrokerObj ''Custom'' 5))
        \<lparr>warnings = [], lookups = [Some ''my.brokers.Custom'']\<rparr>
     = (Inr (Some (EventBrokerObj ''Custom'' 5)),
        \<lparr>warnings = [], lookups = [Some ''my.brokers.Custom'']\<rparr>)"
proof -
  have h: "create example_env (ConfigObj (example_config (Some ''my.brokers.Custom''))) quiet
     = (Inr (Some (EventBrokerObj ''Custom'' 5)),
        \<lparr>warnings = [], lookups = [Some ''my.brokers.Custom'']\<rparr>)"
    by code_simp
  show ?thesis
    using h
      create_passes_broker_through
        [of example_env "EventBrokerObj ''Custom'' 5" quiet
            "ConfigObj (example_config (Some ''my.brokers.Custom''))"
            "\<lparr>warnings = [], lookups = [Some ''my.brokers.Custom'']\<rparr>"]
    by (simp only: simp_thms)
qed

text \<open>
  C7. For every config whose \<^verbatim>\<open>type\<close> is a string that is none of the builtin tags
  under any letter casing, \<open>create\<close> does not fail at once: it is the call of
  \<^verbatim>\<open>_load_from_module_string\<close> on the config, which takes the tag for a module path.
  When \<^verbatim>\<open>class_from_module_path\<close> resolves the tag to an object whose
  \<^verbatim>\<open>from_endpoint_config\<close> constructs a broker from the config, \<open>create\<close> returns that
  broker and logs nothing.
\<close>

theorem create_unrecognised_tag_goes_to_loader:
  assumes "type c = Some t" and "\<not> is_builtin_tag t"
  shows "create env (ConfigObj c) w = load_from_module_string env c w
       \<and> lookups (snd (create env (ConfigObj c) w)) = lookups w @ [Some t]
       \<and> (class_from_module_path env (Some t) = Inr k \<longrightarrow>
            getattr_from_endpoint_config k = Inr f \<longrightarrow> f c = Inr b \<longrightarrow>
            create env (ConfigObj c) w = (Inr (Some b), w\<lparr>lookups := lookups w @ [Some t]\<rparr>))"
proof (intro conjI impI)
  show dyn: "create env (ConfigObj c) w = load_from_module_string env c w"
    using assms by (rule create_config_dynamic)
  show "lookups (snd (create env (ConfigObj c) w)) = lookups w @ [Some t]"
    unfolding dyn load_lookups assms(1) ..
  assume "class_from_module_path env (Some t) = Inr k"
    and "getattr_from_endpoint_config k = Inr f" and "f c = Inr b"
  then have "load_try_body env c = Inr b"
    using constructor_try_body [of env c k f] assms(1) by simp
  then show "create env (ConfigObj c) w = (Inr (Some b), w\<lparr>lookups := lookups w @ [Some t]\<rparr>)"
    unfolding dyn using load_returned [of env c b w] assms(1) by simp
qed

theorem create_unrecognised_tag_goes_to_loader_witness:
  "type (example_config (Some ''my.brokers.Custom'')) = Some ''my.brokers.Custom''
   \<and> \<not> is_builtin_tag ''my.brokers.Custom''
   \<and> class_from_module_path example_env (Some ''my.brokers.Custom'')
       = Inr (LoadedObject (Inr (construct_as ''Custom'' 5)))
   \<and> construct_as ''Custom'' 5 (example_config (Some ''my.brokers.Custom''))
       = Inr (EventBrokerObj ''Custom'' 5)
   \<and> create example_env (ConfigObj (example_config (Some ''my.brokers.Custom''))) quiet
       = (Inr (Some (EventBrokerObj ''Custom'' 5)),
          quiet\<lparr>lookups := [Some ''my.brokers.Custom'']\<rparr>)"
proof -
  have h1: "type (example_config (Some ''my.brokers.Custom'')) = Some ''my.brokers.Custom''"
    by simp
  have h2: "\<not> is_builtin_tag ''my.brokers.Custom''"
    by code_simp
  have h4: "getattr_from_endpoint_config (LoadedObject (Inr (construct_as ''Custom'' 5)))
      = Inr (construct_as ''Custom'' 5)"
    by simp
  have h5: "construct_as ''Custom'' 5 (example_config (Some ''my.brokers.Custom''))
      = Inr (EventBrokerObj ''Custom'' 5)"
    by (simp add: construct_as_def)
  have q: "lookups quiet @ [Some ''my.brokers.Custom''] = [Some ''my.brokers.Custom'']"
    by (simp add: quiet_def)
  from create_unrecognised_tag_goes_to_loader [OF h1 h2, of example_env quiet
      "LoadedObject (Inr (construct_as ''Custom'' 5))" "construct_as ''Custom'' 5"
      "EventBrokerObj ''Custom'' 5"]
  have "create example_env (ConfigObj (example_config (Some ''my.brokers.Custom''))) quiet
       = (Inr (Some (EventBrokerObj ''Custom'' 5)),
          quiet\<lparr>lookups := [Some ''my.brokers.Custom'']\<rparr>)"
    using example_resolver_custom h4 h5 unfolding q by blast
  then show ?thesis
    using h1 h2 example_resolver_custom h5 by blast
qed

text \<open>
  C9. The two operations of the base class \<^verbatim>\<open>EventBroker\<close> return nothing: on every
  config \<^verbatim>\<open>from_endpoint_config\<close> raises a \<^verbatim>\<open>NotImplementedError\<close>, and on every
  broker and event \<^verbatim>\<open>publish\<close> raises a \<^verbatim>\<open>NotImplementedError\<close>.
\<close>

theorem base_class_operations_not_implemented:
  "isl (EventBroker_from_endpoint_config broker_config)
   \<and> isinstance_exc (projl (EventBroker_from_endpoint_config broker_config))
        ''NotImplementedError''
   \<and> isl (EventBroker_publish self event)
   \<and> isinstance_exc (projl (EventBroker_publish self event)) ''NotImplementedError''"
  by (simp add: EventBroker_from_endpoint_config_def EventBroker_publish_def
      NotImplementedError_def isinstance_exc_def)

text \<open>
  C1 as stated fails: a resolution that fails with an exception outside the two classes
  of the \<^verbatim>\<open>except\<close> clause escapes the factory. The path \<^verbatim>\<open>.\<close> is no builtin tag,
  its resolution raises a \<^verbatim>\<open>ValueError\<close>, and \<open>create\<close> raises that error and logs
  nothing.
\<close>

theorem unresolvable_type_raises_counterexample:
  "type (example_config (Some ''.'')) = Some ''.''
   \<and> \<not> is_builtin_tag ''.''
   \<and> class_from_module_path example_env (Some ''.'') = Inl (ValueError ''Empty module name'')
   \<and> create example_env (ConfigObj (example_config (Some ''.''))) quiet
       = (Inl (ValueError ''Empty module name''), \<lparr>warnings = [], lookups = [Some ''.'']\<rparr>)"
proof -
  have a: "\<not> is_builtin_tag ''.''"
    by code_simp
  have b: "create example_env (ConfigObj (example_config (Some ''.''))) quiet
       = (Inl (ValueError ''Empty module name''), \<lparr>warnings = [], lookups = [Some ''.'']\<rparr>)"
    by code_simp
  from a b show ?thesis
    by (simp only: example_type example_resolver_dot simp_thms)
qed

text \<open>
  C1, amended. For every config whose \<^verbatim>\<open>type\<close> is a string that is no builtin tag:
  when the resolution of the string, or the lookup of \<^verbatim>\<open>from_endpoint_config\<close> on the
  resolved object, raises an \<^verbatim>\<open>ImportError\<close> or an \<^verbatim>\<open>AttributeError\<close> (or an
  exception of a subclass; a missing attribute raises \<^verbatim>\<open>AttributeError\<close>), \<open>create\<close>
  returns \<^verbatim>\<open>None\<close> without raising and logs exactly one warning, which contains the
  identifier and the text of that exception. An exception of any other class raised
  there is not caught: \<open>create\<close> raises it and logs nothing.
\<close>

theorem create_load_failure_handled_by_class:
  assumes "type c = Some t" and "\<not> is_builtin_tag t"
    and "class_from_module_path env (Some t) = Inl e
         \<or> (class_from_module_path env (Some t) = Inr k
            \<and> getattr_from_endpoint_config k = Inl e)"
  shows "create env (ConfigObj c) w =
           (if isinstance_exc e ''AttributeError'' \<or> isinstance_exc e ''ImportError''
            then (Inr None, w\<lparr>lookups := lookups w @ [Some t],
                               warnings := warnings w @ [warning_text (Some t) e]\<rparr>)
            else (Inl e, w\<lparr>lookups := lookups w @ [Some t]\<rparr>))
       \<and> sublist t (warning_text (Some t) e)
       \<and> sublist (exc_str e) (warning_text (Some t) e)"
proof -
  have body: "load_try_body env c = Inl e"
    using assms(3) resolution_raises_try_body [of env c e]
      lookup_raises_try_body [of env c k e] assms(1)
    by auto
  have "create env (ConfigObj c) w = load_from_module_string env c w"
    using assms(1,2) by (rule create_config_dynamic)
  also note load_raised [OF body, of w]
  finally show ?thesis
    unfolding assms(1) by (simp only: warning_text_mentions simp_thms)
qed

theorem create_load_failure_handled_by_class_witness:
  "type (example_config (Some ''not.a.real.Module'')) = Some ''not.a.real.Module''
   \<and> \<not> is_builtin_tag ''not.a.real.Module''
   \<and> class_from_module_path example_env (Some ''not.a.real.Module'')
       = Inl (ModuleNotFoundError ''No module named not.a.real.Module'')
   \<and> create example_env (ConfigObj (example_config (Some ''not.a.real.Module''))) quiet
       = (Inr None,
          quiet\<lparr>lookups := [Some ''not.a.real.Module''],
                warnings := [warning_text (Some ''not.a.real.Module'')
                  (ModuleNotFoundError ''No module named not.a.real.Module'')]\<rparr>)
   \<and> \<not> is_builtin_tag ''my.brokers.Plain''
   \<and> create example_env (ConfigObj (example_config (Some ''my.brokers.Plain''))) quiet
       = (Inr None,
          quiet\<lparr>lookups := [Some ''my.brokers.Plain''],
                warnings := [warning_text (Some ''my.brokers.Plain'')
                  (no_attribute (ClassObject ''Plain'') ''from_endpoint_config'')]\<rparr>)
   \<and> \<not> is_builtin_tag ''my.brokers''
   \<and> create example_env (ConfigObj (example_config (Some ''my.brokers''))) quiet
       = (Inr None,
          quiet\<lparr>lookups := [Some ''my.brokers''],
                warnings := [warning_text (Some ''my.brokers'')
                  (no_attribute (ModuleObject ''my.brokers'') ''from_endpoint_config'')]\<rparr>)
   \<and> \<not> is_builtin_tag ''.''
   \<and> create example_env (ConfigObj (example_config (Some ''.''))) quiet
       = (Inl (ValueError ''Empty module name''), quiet\<lparr>lookups := [Some ''.'']\<rparr>)"
proof -
  have n1: "\<not> is_builtin_tag ''not.a.real.Module''" by code_simp
  have n2: "\<not> is_builtin_tag ''my.brokers.Plain''" by code_simp
  have n3: "\<not> is_builtin_tag ''my.brokers''" by code_simp
  have n4: "\<not> is_builtin_tag ''.''" by code_simp
  have g: "getattr_from_endpoint_config (object_without_constructor kind)
      = Inl (no_attribute kind ''from_endpoint_config'')" for kind
    by (simp add: object_without_constructor_def)
  have q: "lookups quiet @ xs = xs" "warnings quiet @ ys = ys" for xs ys
    by (simp_all add: quiet_def)
  have r1: "create example_env (ConfigObj (example_config (Some ''not.a.real.Module''))) quiet
       = (Inr None,
          quiet\<lparr>lookups := [Some ''not.a.real.Module''],
                warnings := [warning_text (Some ''not.a.real.Module'')
                  (ModuleNotFoundError ''No module named not.a.real.Module'')]\<rparr>)"
    using create_load_failure_handled_by_class
      [OF example_type n1 disjI1 [OF example_resolver_missing], of quiet]
    unfolding q if_P [OF caught_ModuleNotFoundError] by (rule conjunct1)
  have r2: "create example_env (ConfigObj (example_config (Some ''my.brokers.Plain''))) quiet
       = (Inr None,
          quiet\<lparr>lookups := [Some ''my.brokers.Plain''],
                warnings := [warning_text (Some ''my.brokers.Plain'')
                  (no_attribute (ClassObject ''Plain'') ''from_endpoint_config'')]\<rparr>)"
    using create_load_failure_handled_by_class
      [OF example_type n2 disjI2 [OF conjI [OF example_resolver_plain g]], of quiet]
    unfolding q if_P [OF caught_no_attribute] by (rule conjunct1)
  have r3: "create example_env (ConfigObj (example_config (Some ''my.brokers''))) quiet
       = (Inr None,
          quiet\<lparr>lookups := [Some ''my.brokers''],
                warnings := [warning_text (Some ''my.brokers'')
                  (no_attribute (ModuleObject ''my.brokers'') ''from_endpoint_config'')]\<rparr>)"
    using create_load_failure_handled_by_class
      [OF example_type n3 disjI2 [OF conjI [OF example_resolver_module g]], of quiet]
    unfolding q if_P [OF caught_no_attribute] by (rule conjunct1)
  have r4: "create example_env (ConfigObj (example_config (Some ''.''))) quiet
       = (Inl (ValueError ''Empty module name''), quiet\<lparr>lookups := [Some ''.'']\<rparr>)"
    using create_load_failure_handled_by_class
      [OF example_type n4 disjI1 [OF example_resolver_dot], of quiet]
    unfolding q if_not_P [OF not_caught_ValueError] by (rule conjunct1)
  from n1 n2 n3 n4 r1 r2 r3 r4 example_resolver_missing show ?thesis
    by (simp only: example_type simp_thms)
qed

text \<open>
  C2. The claim is that an error raised by the construction of a resolved broker is not
  caught. The code catches it when its class is \<^verbatim>\<open>AttributeError\<close> (or
  \<^verbatim>\<open>ImportError\<close>): the identifier below resolves, the resolved class has a
  \<^verbatim>\<open>from_endpoint_config\<close>, that constructor raises an \<^verbatim>\<open>AttributeError\<close>, and
  \<open>create\<close> returns \<^verbatim>\<open>None\<close> with a warning that the type could not be found. The
  same constructor under the builtin tag raises through \<open>create\<close>.
\<close>

theorem construction_attribute_error_swallowed:
  "class_from_module_path example_env (Some ''my.brokers.Fragile'') = Inr fragile_class
   \<and> getattr_from_endpoint_config fragile_class
       = Inr (construct_raising (AttributeError ''no attribute host''))
   \<and> construct_raising (AttributeError ''no attribute host'')
         (example_config (Some ''my.brokers.Fragile''))
       = Inl (AttributeError ''no attribute host'')
   \<and> create example_env (ConfigObj (example_config (Some ''my.brokers.Fragile''))) quiet
       = (Inr None,
          \<lparr>warnings = [warning_text (Some ''my.brokers.Fragile'')
                         (AttributeError ''no attribute host'')],
           lookups = [Some ''my.brokers.Fragile'']\<rparr>)
   \<and> create
         (example_env\<lparr>PikaEventBroker_from_endpoint_config :=
            construct_raising (AttributeError ''no attribute host'')\<rparr>)
         (ConfigObj (example_config None)) quiet
       = (Inl (AttributeError ''no attribute host''), quiet)"
proof -
  have a: "create example_env (ConfigObj (example_config (Some ''my.brokers.Fragile''))) quiet
       = (Inr None,
          \<lparr>warnings = [warning_text (Some ''my.brokers.Fragile'')
                         (AttributeError ''no attribute host'')],
           lookups = [Some ''my.brokers.Fragile'']\<rparr>)"
    by code_simp
  have b: "create
         (example_env\<lparr>PikaEventBroker_from_endpoint_config :=
            construct_raising (AttributeError ''no attribute host'')\<rparr>)
         (ConfigObj (example_config None)) quiet
       = (Inl (AttributeError ''no attribute host''), quiet)"
    by (simp add: returning_def construct_raising_def)
  have c: "getattr_from_endpoint_config fragile_class
       = Inr (construct_raising (AttributeError ''no attribute host''))"
    by (simp add: fragile_class_def)
  have d: "construct_raising (AttributeError ''no attribute host'')
         (example_config (Some ''my.brokers.Fragile''))
       = Inl (AttributeError ''no attribute host'')"
    by (simp add: construct_raising_def)
  from a b c d example_resolver_fragile show ?thesis
    by (intro conjI)
qed

text \<open>
  C6 as stated fails: the empty tag is not treated as an absent tag. With the absent tag
  \<open>create\<close> returns the broker of \<^verbatim>\<open>PikaEventBroker\<close>; with the empty tag it looks
  the empty string up as a module path and, that failing, logs a warning and returns
  \<^verbatim>\<open>None\<close>.
\<close>

theorem empty_tag_not_default_counterexample:
  "create example_env (ConfigObj (example_config None)) quiet
     = (Inr (Some (EventBrokerObj ''PikaEventBroker'' 1)), quiet)
   \<and> PikaEventBroker_from_endpoint_config example_env (example_config (Some []))
     = Inr (EventBrokerObj ''PikaEventBroker'' 1)
   \<and> fst (create example_env (ConfigObj (example_config (Some []))) quiet) = Inr None
   \<and> lookups (snd (create example_env (ConfigObj (example_config (Some []))) quiet))
     = [Some []]
   \<and> length (warnings (snd (create example_env
        (ConfigObj (example_config (Some []))) quiet))) = 1"
proof -
  have a: "create example_env (ConfigObj (example_config None)) quiet
     = (Inr (Some (EventBrokerObj ''PikaEventBroker'' 1)), quiet)"
    by code_simp
  have b: "fst (create example_env (ConfigObj (example_config (Some []))) quiet) = Inr None"
    by code_simp
  have c: "lookups (snd (create example_env (ConfigObj (example_config (Some []))) quiet))
     = [Some []]"
    by code_simp
  have d: "length (warnings (snd (create example_env
        (ConfigObj (example_config (Some []))) quiet))) = 1"
    by code_simp
  from a b c d show ?thesis
    by (simp only: example_pika simp_thms)
qed

text \<open>
  C6, amended. For every config whose \<^verbatim>\<open>type\<close> tag is absent, \<open>create\<close> defaults to
  constructing the message-queue broker. The empty string is a present tag that matches
  no builtin tag: \<open>create\<close> hands it to the dynamic loader, which looks it up as it is.
\<close>

theorem absent_tag_defaults_empty_tag_loads:
  "(type c = None \<longrightarrow>
      create env (ConfigObj c) w =
        (case PikaEventBroker_from_endpoint_config env c of
           Inl e \<Rightarrow> (Inl e, w) | Inr b \<Rightarrow> (Inr (Some b), w)))
   \<and> (type c = Some [] \<longrightarrow>
        create env (ConfigObj c) w = load_from_module_string env c w
      \<and> lookups (snd (create env (ConfigObj c) w)) = lookups w @ [Some []])"
proof (intro conjI impI)
  assume "type c = None"
  then show "create env (ConfigObj c) w =
      (case PikaEventBroker_from_endpoint_config env c of
         Inl e \<Rightarrow> (Inl e, w) | Inr b \<Rightarrow> (Inr (Some b), w))"
    by (simp only: create_config_absent_type returning_def)
next
  assume t: "type c = Some []"
  then show dyn: "create env (ConfigObj c) w = load_from_module_string env c w"
    using empty_not_builtin by (rule create_config_dynamic)
  show "lookups (snd (create env (ConfigObj c) w)) = lookups w @ [Some []]"
    unfolding dyn load_lookups t ..
qed

theorem absent_tag_defaults_empty_tag_loads_witness:
  "type (example_config None) = None
   \<and> create example_env (ConfigObj (example_config None)) quiet
       = (Inr (Some (EventBrokerObj ''PikaEventBroker'' 1)), quiet)
   \<and> type (example_config (Some [])) = Some []
   \<and> create example_env (ConfigObj (example_config (Some []))) quiet
       = load_from_module_string example_env (example_config (Some [])) quiet
   \<and> lookups (snd (create example_env (ConfigObj (example_config (Some []))) quiet))
       = [Some []]"
proof -
  have h1: "type (example_config None) = None"
    by simp
  have h2: "type (example_config (Some [])) = Some []"
    by simp
  have q: "lookups quiet @ [Some []] = [Some []]"
    by (simp add: quiet_def)
  from absent_tag_defaults_empty_tag_loads [of "example_config None" example_env quiet]
    absent_tag_defaults_empty_tag_loads [of "example_config (Some [])" example_env quiet]
  show ?thesis
    using h1 h2 unfolding q example_pika sum.case by blast
qed



end
